theory Spec2Isabelle
  imports Complex_Main
begin

section \<open>Reaction kinetics of the 0D global model: \<^verbatim>\<open>src/reactions/reaction.py\<close>\<close>

text \<open>
  The module evaluates one reaction channel on a flat state vector
  \<^verbatim>\<open>[n_e, n_1, ..., T_e, T_1, ...]\<close>. Its arithmetic is NumPy arithmetic on
  numbers; the embedding is polymorphic in the number type \<open>'a\<close> and asks of it
  only the operations a definition uses, so that a theorem proved without algebraic laws
  holds for whatever multiplication and subtraction the numbers have. Concrete scenarios
  are evaluated on \<open>real\<close> where all their values are small integers, and on the
  type \<open>float64\<close> below where the rounding of a product matters.

  Every raise of the source is a value of \<open>error\<close>, and a function that can raise
  returns \<open>error + 'a\<close> with \<open>Inl\<close> for the exception.
\<close>

subsection \<open>Exceptions and NumPy helpers\<close>

datatype error =
    LookupError
  | ValueError
  | AssertionError
  | IndexError
  | NameError
  | ZeroDivisionError

text \<open>
  Sequencing: the second computation runs on the value of the first, and an exception of
  the first is the exception of the whole.
\<close>

fun ebind :: "error + 'a \<Rightarrow> ('a \<Rightarrow> error + 'b) \<Rightarrow> error + 'b" where
  "ebind (Inl e) f = Inl e"
| "ebind (Inr x) f = f x"

text \<open>\<^verbatim>\<open>xs[i]\<close> for a non-negative index: IndexError out of range.\<close>

definition getitem :: "'a list \<Rightarrow> nat \<Rightarrow> error + 'a" where
  "getitem xs i = (if i < length xs then Inr (xs ! i) else Inl IndexError)"

text \<open>\<^verbatim>\<open>xs[i] = v\<close> for a non-negative index: IndexError out of range.\<close>

definition setitem :: "'a list \<Rightarrow> nat \<Rightarrow> 'a \<Rightarrow> error + 'a list" where
  "setitem xs i v = (if i < length xs then Inr (xs[i := v]) else Inl IndexError)"

text \<open>
  A list comprehension \<^verbatim>\<open>[f(x) for x in xs]\<close> whose body can raise: the first
  exception, in list order, ends it.
\<close>

fun comprehension :: "('a \<Rightarrow> error + 'b) \<Rightarrow> 'a list \<Rightarrow> error + 'b list" where
  "comprehension f [] = Inr []"
| "comprehension f (x # xs) =
     ebind (f x) (\<lambda>y. ebind (comprehension f xs) (\<lambda>ys. Inr (y # ys)))"

text \<open>\<^verbatim>\<open>state[indices]\<close>: NumPy indexing by a list of indices.\<close>

definition fancy_index :: "'a list \<Rightarrow> nat list \<Rightarrow> error + 'a list" where
  "fancy_index xs is = comprehension (getitem xs) is"

text \<open>\<^verbatim>\<open>np.prod\<close>: the product of the entries, 1 for no entry.\<close>

fun np_prod :: "'a::{one,times} list \<Rightarrow> 'a" where
  "np_prod [] = 1"
| "np_prod (x # xs) = foldl (*) x xs"

definition np_zeros :: "nat \<Rightarrow> 'a::zero list" where
  "np_zeros n = replicate n 0"

text \<open>\<^verbatim>\<open>max(xs)\<close> of the built-ins: ValueError on the empty list.\<close>

fun py_max :: "nat list \<Rightarrow> error + nat" where
  "py_max [] = Inl ValueError"
| "py_max (x # xs) = Inr (foldl max x xs)"

subsection \<open>The product of two float64 numbers\<close>

text \<open>
  The numbers of a NumPy float array are IEEE 754 binary64. A finite one is
  \<open>mantissa * 2 ^ exponent\<close>, kept here with an odd mantissa (zero is
  \<open>Float64 0 0\<close>), so that two values are equal exactly when they are the same
  number. A product is the exact product rounded to 53 significant bits, to nearest and
  to even on a tie. The range of the exponent is not modelled: no overflow, underflow,
  infinity or NaN, and the sign of zero is dropped.
\<close>

datatype float64 = Float64 (mantissa: int) (exponent: int)

function bit_length :: "int \<Rightarrow> nat" where
  "bit_length n = (if n \<le> 0 then 0 else Suc (bit_length (n div 2)))"
  by pat_completeness auto
termination
  by (relation "measure nat") auto

declare bit_length.simps [simp del]

text \<open>\<open>m / 2 ^ k\<close> rounded to the nearest integer, to the even one on a tie.\<close>

definition round_half_even :: "int \<Rightarrow> nat \<Rightarrow> int" where
  "round_half_even m k =
     (let q = m div 2 ^ k; r = m mod 2 ^ k; h = 2 ^ k div 2
      in if h < r \<or> (r = h \<and> odd q) then q + 1 else q)"

definition round53 :: "int \<Rightarrow> int \<Rightarrow> int \<times> int" where
  "round53 m e =
     (if bit_length m \<le> 53 then (m, e)
      else (round_half_even m (bit_length m - 53), e + int (bit_length m - 53)))"

function strip_zeros :: "int \<Rightarrow> int \<Rightarrow> int \<times> int" where
  "strip_zeros m e =
     (if m \<le> 0 then (0, 0)
      else if even m then strip_zeros (m div 2) (e + 1)
      else (m, e))"
  by pat_completeness auto
termination
  by (relation "measure (\<lambda>(m, e). nat m)") auto

declare strip_zeros.simps [simp del]

definition float64_mul :: "float64 \<Rightarrow> float64 \<Rightarrow> float64" where
  "float64_mul a b =
     (let m = mantissa a * mantissa b;
          (n, e) = round53 \<bar>m\<bar> (exponent a + exponent b);
          (n', e') = strip_zeros n e
      in Float64 (sgn m * n') e')"

instantiation float64 :: "{zero,one,times}"
begin

definition zero_float64 :: float64 where "zero_float64 = Float64 0 0"
definition one_float64 :: float64 where "one_float64 = Float64 1 0"
definition times_float64 :: "float64 \<Rightarrow> float64 \<Rightarrow> float64" where
  "times_float64 = float64_mul"

instance ..

end

definition float64_value :: "float64 \<Rightarrow> rat" where
  "float64_value x = of_int (mantissa x) * 2 powi exponent x"

subsection \<open>The species registry\<close>

text \<open>
  \<^verbatim>\<open>src/specie.py\<close> is not among the sources. \<open>Specie\<close> has the three attributes
  the demo block constructs it with and the module reads: \<^verbatim>\<open>name\<close>, \<^verbatim>\<open>mass\<close>,
  \<^verbatim>\<open>nb_atoms\<close>. The registry is what \<open>Reaction\<close> uses of it: two lookups that
  can fail, and the species count. A reaction takes any such registry.
\<close>

record 'a Specie =
  name :: string
  mass :: 'a
  nb_atoms :: nat

record 'a Species =
  get_specie_by_name :: "string \<Rightarrow> error + 'a Specie"
  get_index_by_instance :: "'a Specie \<Rightarrow> error + nat"
  nb :: nat

fun index_of :: "'b \<Rightarrow> 'b list \<Rightarrow> nat option" where
  "index_of x [] = None"
| "index_of x (y # ys) =
     (if x = y then Some 0 else (case index_of x ys of None \<Rightarrow> None | Some i \<Rightarrow> Some (Suc i)))"

text \<open>
  Modelled from the spec: the constructor \<^verbatim>\<open>Species(list)\<close> of \<^verbatim>\<open>src/specie.py\<close>,
  which is missing. The registry is an ordered collection of entries with unique names,
  \<^verbatim>\<open>get_specie_by_name\<close> fails with a lookup error if the name is absent,
  \<^verbatim>\<open>get_index_by_instance\<close> is the position in registry order, and \<^verbatim>\<open>nb\<close> is
  the registry size. An instance is found by its value, which is its identity when the
  names are unique.
\<close>

definition Species_of :: "'a Specie list \<Rightarrow> 'a Species" where
  "Species_of sps =
     \<lparr> get_specie_by_name =
         (\<lambda>n. case find (\<lambda>s. name s = n) sps of None \<Rightarrow> Inl LookupError | Some s \<Rightarrow> Inr s),
       get_index_by_instance =
         (\<lambda>s. case index_of s sps of None \<Rightarrow> Inl LookupError | Some i \<Rightarrow> Inr i),
       nb = length sps \<rparr>"

subsection \<open>Reaction\<close>

record 'a Reaction =
  species :: "'a Species"
  reactives :: "'a Specie list"
  reactives_indices :: "nat list"
  products :: "'a Specie list"
  products_indices :: "nat list"
  stoechio_coeffs :: "'a list"
  energy_threshold :: 'a
  rate_constant :: "'a list \<Rightarrow> 'a"
  spectators :: "string list option"

text \<open>
  The default fill of \<^verbatim>\<open>__init__\<close>, lines 46 to 50:
  \<^verbatim>\<open>
  for i in self.reactives_indices:
      self.stoechio_coeffs[i] = 1
  for sp in self.products_indices:
      self.stoechio_coeffs[i] = 1
  \<close>
  The first loop leaves its variable \<^verbatim>\<open>i\<close> bound to the last reactive index, and
  the second loop assigns at that \<^verbatim>\<open>i\<close> once per product. The variable is the
  \<open>nat option\<close> threaded through: \<open>None\<close> while unbound.
\<close>

fun fill_reactives ::
  "nat list \<Rightarrow> 'a::one list \<Rightarrow> nat option \<Rightarrow> error + ('a list \<times> nat option)" where
  "fill_reactives [] coeffs i = Inr (coeffs, i)"
| "fill_reactives (j # js) coeffs i =
     ebind (setitem coeffs j 1) (\<lambda>coeffs'. fill_reactives js coeffs' (Some j))"

fun fill_products ::
  "nat list \<Rightarrow> 'a::one list \<Rightarrow> nat option \<Rightarrow> error + 'a list" where
  "fill_products [] coeffs i = Inr coeffs"
| "fill_products (sp # sps) coeffs i =
     (case i of
        None \<Rightarrow> Inl NameError
      | Some i' \<Rightarrow> ebind (setitem coeffs i' 1) (\<lambda>coeffs'. fill_products sps coeffs' i))"

definition default_stoechio_coeffs ::
  "nat \<Rightarrow> nat list \<Rightarrow> nat list \<Rightarrow> error + 'a::{zero,one} list" where
  "default_stoechio_coeffs n ris pis =
     ebind (fill_reactives ris (np_zeros n) None) (\<lambda>(coeffs, i). fill_products pis coeffs i)"

text \<open>
  \<^verbatim>\<open>assert max(indices) < self.species.nb\<close>: ValueError from \<^verbatim>\<open>max\<close> on an
  empty list, AssertionError when the largest index is not below the count. The
  assertion is taken as executed (the interpreter runs without \<^verbatim>\<open>-O\<close>).
\<close>

definition assert_indices :: "nat list \<Rightarrow> nat \<Rightarrow> error + unit" where
  "assert_indices is n =
     ebind (py_max is) (\<lambda>m. if m < n then Inr () else Inl AssertionError)"

text \<open>
  The truth value of an optional list, as \<^verbatim>\<open>if stoechio_coeffs:\<close> tests it:
  \<^verbatim>\<open>None\<close> and the empty list are false.
\<close>

definition truthy :: "'a list option \<Rightarrow> bool" where
  "truthy x = (x \<noteq> None \<and> x \<noteq> Some [])"

text \<open>
  \<^verbatim>\<open>Reaction.__init__\<close>. With no truthy \<^verbatim>\<open>stoechio_coeffs\<close> the default fill
  runs; otherwise the given list is stored as it is.
\<close>

definition Reaction_init ::
  "'a::{zero,one} Species \<Rightarrow> string list \<Rightarrow> string list \<Rightarrow> ('a list \<Rightarrow> 'a) \<Rightarrow> 'a \<Rightarrow>
   'a list option \<Rightarrow> string list option \<Rightarrow> error + 'a Reaction" where
  "Reaction_init S reactive_names product_names rc energy_treshold coeffs specs =
     ebind (comprehension (get_specie_by_name S) reactive_names) (\<lambda>rs.
     ebind (comprehension (get_index_by_instance S) rs) (\<lambda>ris.
     ebind (assert_indices ris (nb S)) (\<lambda>_.
     ebind (comprehension (get_specie_by_name S) product_names) (\<lambda>ps.
     ebind (comprehension (get_index_by_instance S) ps) (\<lambda>pis.
     ebind (assert_indices pis (nb S)) (\<lambda>_.
     ebind (if truthy coeffs then Inr (the coeffs)
            else default_stoechio_coeffs (nb S) ris pis) (\<lambda>cs.
     Inr \<lparr> species = S, reactives = rs, reactives_indices = ris,
           products = ps, products_indices = pis, stoechio_coeffs = cs,
           energy_threshold = energy_treshold, rate_constant = rc,
           spectators = specs \<rparr>)))))))"

text \<open>
  The two assignment loops of \<^verbatim>\<open>density_change_rate\<close>, lines 63 to 68: for each
  species the index is looked up again in the registry, and
  \<^verbatim>\<open>rate[i] = v * self.stoechio_coeffs[i]\<close> with \<open>v\<close> the signed mass-action term.
\<close>

fun assign_rates ::
  "'a::times Species \<Rightarrow> 'a list \<Rightarrow> 'a \<Rightarrow> 'a Specie list \<Rightarrow> 'a list \<Rightarrow> error + 'a list" where
  "assign_rates S coeffs v [] rate = Inr rate"
| "assign_rates S coeffs v (sp # sps) rate =
     ebind (get_index_by_instance S sp) (\<lambda>i.
     ebind (getitem coeffs i) (\<lambda>c.
     ebind (setitem rate i (v * c)) (\<lambda>rate'.
     assign_rates S coeffs v sps rate')))"

definition density_change_rate ::
  "'a::{zero,one,times,uminus} Reaction \<Rightarrow> 'a list \<Rightarrow> error + 'a list" where
  "density_change_rate r state =
     (let K = rate_constant r (drop (nb (species r)) state) in
      ebind (fancy_index state (reactives_indices r)) (\<lambda>ds.
      let product = K * np_prod ds;
          rate = np_zeros (nb (species r)) in
      ebind (assign_rates (species r) (stoechio_coeffs r) (- product) (reactives r) rate)
        (\<lambda>rate'.
      assign_rates (species r) (stoechio_coeffs r) product (products r) rate')))"

definition electron_loss_power ::
  "'a::{one,times} Reaction \<Rightarrow> 'a list \<Rightarrow> error + 'a" where
  "electron_loss_power r state =
     (let K = rate_constant r state in
      ebind (fancy_index state (reactives_indices r)) (\<lambda>ds.
      Inr (energy_threshold r * K * np_prod ds)))"

text \<open>
  The same reaction with a rate-constant function that returns \<open>c\<close> times what the
  given one returns.
\<close>

definition scale_rate_constant :: "'a::times \<Rightarrow> 'a Reaction \<Rightarrow> 'a Reaction" where
  "scale_rate_constant c r = r\<lparr>rate_constant := (\<lambda>s. c * rate_constant r s)\<rparr>"

subsection \<open>ElasticCollisionWithElectron\<close>

text \<open>
  The subclass adds no field; it passes the colliding species as the only reactive and the
  only product, and overrides both evaluations. The constants \<^verbatim>\<open>m_e\<close> and \<^verbatim>\<open>k_B\<close>
  of \<^verbatim>\<open>scipy.constants\<close> are parameters. A Python float division by zero raises.
\<close>

definition ElasticCollisionWithElectron_init ::
  "'a::{zero,one} Species \<Rightarrow> string \<Rightarrow> ('a list \<Rightarrow> 'a) \<Rightarrow> 'a \<Rightarrow> error + 'a Reaction" where
  "ElasticCollisionWithElectron_init S colliding_specie rc energy_treshold =
     Reaction_init S [colliding_specie] [colliding_specie] rc energy_treshold None None"

definition elastic_density_change_rate :: "'a::zero Reaction \<Rightarrow> 'a list \<Rightarrow> 'a list" where
  "elastic_density_change_rate r state = np_zeros (nb (species r))"

definition elastic_electron_loss_power ::
  "'a::{zero,times,minus,inverse,numeral} \<Rightarrow> 'a \<Rightarrow> 'a Reaction \<Rightarrow> 'a list \<Rightarrow> error + 'a" where
  "elastic_electron_loss_power m_e k_B r state =
     (let K = rate_constant r state in
      ebind (getitem (reactives r) 0) (\<lambda>sp.
      ebind (if mass sp = 0 then Inl ZeroDivisionError else Inr (m_e / mass sp)) (\<lambda>mass_ratio.
      ebind (getitem state (nb (species r))) (\<lambda>T_e.
      ebind (getitem state (nb (species r) + nb_atoms sp)) (\<lambda>T_h.
      let delta_temp = T_e - T_h in
      ebind (getitem state 0) (\<lambda>n_e.
      ebind (getitem (reactives_indices r) 0) (\<lambda>i.
      ebind (getitem state i) (\<lambda>n_s.
      Inr (3 * mass_ratio * k_B * delta_temp * n_e * n_s * K)))))))))"

subsection \<open>The scenario of the module's demo block\<close>

definition demo_species :: "real Species" where
  "demo_species = Species_of (map (\<lambda>n. \<lparr> name = n, mass = 1057 / 10 ^ 29, nb_atoms = 0 \<rparr>)
     [''I0'', ''I1'', ''I2'', ''I3'', ''I4'', ''I5''])"

definition K_diss_I2 :: "real list \<Rightarrow> real" where
  "K_diss_I2 Ts = 2"

definition demo_state :: "real list" where
  "demo_state = [1, 2, 3, 4, 5, 6, -181, -182]"

definition demo_reaction :: "error + real Reaction" where
  "demo_reaction = Reaction_init demo_species [''I2'', ''I4''] [''I5''] K_diss_I2 10 None None"

text \<open>
  Three more scenarios: a reaction with \<^verbatim>\<open>I4\<close> on both sides, a registry of an
  electron and a diatomic molecule, and a registry whose count disagrees with the indices
  it hands out.
\<close>

definition demo_catalytic :: "error + real Reaction" where
  "demo_catalytic =
     Reaction_init demo_species [''I2'', ''I4''] [''I4'', ''I5''] K_diss_I2 10 None None"

definition two_species :: "real Species" where
  "two_species = Species_of
     [\<lparr> name = ''e'', mass = 1, nb_atoms = 0 \<rparr>, \<lparr> name = ''N2'', mass = 2, nb_atoms = 1 \<rparr>]"

definition miscounting_species :: "real Species" where
  "miscounting_species =
     \<lparr> get_specie_by_name = (\<lambda>n. Inr \<lparr> name = n, mass = 1, nb_atoms = 0 \<rparr>),
       get_index_by_instance = (\<lambda>s. Inr (if name s = ''A'' then 0 else 5)),
       nb = 1 \<rparr>"

text \<open>
  A scenario on float64 numbers: one species \<^verbatim>\<open>A\<close> of density \<^verbatim>\<open>1.0\<close>, a rate
  constant that returns \<^verbatim>\<open>0.1\<close> (the float64 nearest to one tenth), the threshold
  \<^verbatim>\<open>10.0\<close> and the factor \<^verbatim>\<open>3.0\<close>.
\<close>

definition f_tenth :: float64 where "f_tenth = Float64 3602879701896397 (- 55)"
definition f_three :: float64 where "f_three = Float64 3 0"
definition f_ten :: float64 where "f_ten = Float64 5 1"

definition float_species :: "float64 Species" where
  "float_species = Species_of [\<lparr> name = ''A'', mass = f_ten, nb_atoms = 0 \<rparr>]"

definition K_tenth :: "float64 list \<Rightarrow> float64" where
  "K_tenth state = f_tenth"

definition float_reaction :: "float64 Reaction" where
  "float_reaction =
     \<lparr> species = float_species,
       reactives = [\<lparr> name = ''A'', mass = f_ten, nb_atoms = 0 \<rparr>], reactives_indices = [0],
       products = [\<lparr> name = ''A'', mass = f_ten, nb_atoms = 0 \<rparr>], products_indices = [0],
       stoechio_coeffs = [1], energy_threshold = f_ten, rate_constant = K_tenth,
       spectators = None \<rparr>"

definition float_state :: "float64 list" where
  "float_state = [1, 1]"

section \<open>Auxiliary facts\<close>

subsection \<open>Sequencing, indexing and the index guard\<close>

lemma ebind_Inr_iff: "ebind m f = Inr y \<longleftrightarrow> (\<exists>x. m = Inr x \<and> f x = Inr y)"
  by (cases m) simp_all

lemma comprehension_Inr_iff:
  "comprehension f xs = Inr ys \<longleftrightarrow> list_all2 (\<lambda>x y. f x = Inr y) xs ys"
  by (induction xs arbitrary: ys) (auto simp: ebind_Inr_iff list_all2_Cons1)

lemma getitem_Inr_iff: "getitem xs i = Inr x \<longleftrightarrow> i < length xs \<and> x = xs ! i"
  by (auto simp: getitem_def)

lemma fancy_index_Inr_iff:
  "fancy_index xs is = Inr ds \<longleftrightarrow> (\<forall>i\<in>set is. i < length xs) \<and> ds = map ((!) xs) is"
  unfolding fancy_index_def comprehension_Inr_iff
  by (induction "is" arbitrary: ds) (auto simp: list_all2_Cons1 getitem_Inr_iff)

lemma fancy_index_in_range:
  "\<forall>i\<in>set is. i < length xs \<Longrightarrow> fancy_index xs is = Inr (map ((!) xs) is)"
  by (simp add: fancy_index_Inr_iff)

lemma foldl_max_less: "foldl max x xs < n \<longleftrightarrow> x < n \<and> (\<forall>i\<in>set xs. i < (n::nat))"
  by (induction xs arbitrary: x) auto

lemma assert_indices_Inr_iff:
  "assert_indices is n = Inr u \<longleftrightarrow> is \<noteq> [] \<and> (\<forall>i\<in>set is. i < n)"
  by (cases "is") (auto simp: assert_indices_def foldl_max_less)

lemma assert_indices_out_of_range:
  "is \<noteq> [] \<Longrightarrow> \<exists>i\<in>set is. n \<le> i \<Longrightarrow> assert_indices is n = Inl AssertionError"
  by (cases "is") (auto simp: assert_indices_def foldl_max_less not_less [symmetric])

text \<open>
  The registry built from a list hands out positions of the list only, so that the index
  guard of the constructor cannot fail on it.
\<close>

lemma index_of_less: "index_of x xs = Some i \<Longrightarrow> i < length xs"
  by (induction xs arbitrary: i) (auto split: if_splits option.splits)

lemma Species_of_index_in_range:
  "get_index_by_instance (Species_of sps) s = Inr i \<Longrightarrow> i < nb (Species_of sps)"
  by (auto simp: Species_of_def index_of_less split: option.splits)

subsection \<open>The default fill\<close>

text \<open>
  In range, the first loop sets the entries at the reactive indices and the second loop
  sets the entry at the last reactive index again: the product indices play no part.
\<close>

lemma fill_reactives_in_range:
  "\<forall>j\<in>set js. j < length c \<Longrightarrow>
   fill_reactives js c i =
     Inr (map (\<lambda>k. if k \<in> set js then 1 else c ! k) [0..<length c],
          if js = [] then i else Some (last js))"
proof (induction js arbitrary: c i)
  case Nil
  then show ?case by (simp add: map_nth)
next
  case (Cons j js)
  have "map (\<lambda>k. if k \<in> set js then 1 else c[j := 1] ! k) [0..<length c] =
        map (\<lambda>k. if k \<in> set (j # js) then 1 else c ! k) [0..<length c]"
    by (rule map_cong) (auto simp: nth_list_update)
  with Cons show ?case by (simp add: setitem_def)
qed

lemma fill_products_in_range:
  "i < length c \<Longrightarrow> fill_products ps c (Some i) = Inr (if ps = [] then c else c[i := 1])"
  by (induction ps arbitrary: c) (auto simp: setitem_def)

lemma default_stoechio_coeffs_eq:
  assumes "ris \<noteq> []" and "\<forall>i\<in>set ris. i < n"
  shows "default_stoechio_coeffs n ris pis =
           Inr (map (\<lambda>k. if k \<in> set ris then 1 else (0 :: 'a :: {zero,one})) [0..<n])"
proof -
  let ?c = "map (\<lambda>k. if k \<in> set ris then 1 else (0 :: 'a)) [0..<n]"
  have len: "length (np_zeros n :: 'a list) = n"
    by (simp add: np_zeros_def)
  have e: "map (\<lambda>k. if k \<in> set ris then 1 else (np_zeros n :: 'a list) ! k) [0..<n] = ?c"
    by (rule map_cong) (auto simp: np_zeros_def)
  have "fill_reactives ris (np_zeros n :: 'a list) None =
          Inr (map (\<lambda>k. if k \<in> set ris then 1 else (np_zeros n :: 'a list) ! k)
                 [0..<length (np_zeros n :: 'a list)],
               if ris = [] then None else Some (last ris))"
    using assms(2) by (intro fill_reactives_in_range) (simp add: len)
  then have fr: "fill_reactives ris (np_zeros n :: 'a list) None = Inr (?c, Some (last ris))"
    unfolding len e using assms(1) by simp
  have l: "last ris < n" using assms by simp
  have "?c[last ris := 1] = ?c"
    using assms l by (intro nth_equalityI) (auto simp: nth_list_update)
  then show ?thesis
    using fr l fill_products_in_range [of "last ris" ?c pis]
    by (simp add: default_stoechio_coeffs_def)
qed

subsection \<open>The constructor and the rate vector in closed form\<close>

lemma assign_rates_in_range:
  assumes "list_all2 (\<lambda>sp i. get_index_by_instance S sp = Inr i) sps is"
    and "\<forall>i\<in>set is. i < length coeffs \<and> i < length rate"
  shows "assign_rates S coeffs v sps rate =
           Inr (map (\<lambda>k. if k \<in> set is then v * coeffs ! k else rate ! k) [0..<length rate])"
  using assms
proof (induction sps "is" arbitrary: rate rule: list_all2_induct)
  case Nil
  then show ?case by (simp add: map_nth)
next
  case (Cons sp sps i "is")
  let ?rate = "rate[i := v * coeffs ! i]"
  have "map (\<lambda>k. if k \<in> set is then v * coeffs ! k else ?rate ! k) [0..<length rate] =
        map (\<lambda>k. if k \<in> set (i # is) then v * coeffs ! k else rate ! k) [0..<length rate]"
    by (rule map_cong) (auto simp: nth_list_update)
  with Cons show ?case by (simp add: setitem_def getitem_def)
qed

lemma Reaction_init_Inr:
  assumes "Reaction_init S rn pn rc thr coeffs specs = Inr r"
  shows "species r = S" and "rate_constant r = rc" and "energy_threshold r = thr"
    and "spectators r = specs"
    and "comprehension (get_specie_by_name S) rn = Inr (reactives r)"
    and "list_all2 (\<lambda>sp i. get_index_by_instance S sp = Inr i) (reactives r) (reactives_indices r)"
    and "reactives_indices r \<noteq> []"
    and "\<forall>i\<in>set (reactives_indices r). i < nb S"
    and "comprehension (get_specie_by_name S) pn = Inr (products r)"
    and "list_all2 (\<lambda>sp i. get_index_by_instance S sp = Inr i) (products r) (products_indices r)"
    and "products_indices r \<noteq> []"
    and "\<forall>i\<in>set (products_indices r). i < nb S"
    and "stoechio_coeffs r =
           (if truthy coeffs then the coeffs
            else map (\<lambda>k. if k \<in> set (reactives_indices r) then 1 else 0) [0..<nb S])"
proof -
  from assms obtain rs ris ps pis cs where
    rs: "comprehension (get_specie_by_name S) rn = Inr rs" and
    ris: "comprehension (get_index_by_instance S) rs = Inr ris" and
    a1: "assert_indices ris (nb S) = Inr ()" and
    ps: "comprehension (get_specie_by_name S) pn = Inr ps" and
    pis: "comprehension (get_index_by_instance S) ps = Inr pis" and
    a2: "assert_indices pis (nb S) = Inr ()" and
    cs: "(if truthy coeffs then Inr (the coeffs)
          else default_stoechio_coeffs (nb S) ris pis) = Inr cs" and
    r: "r = \<lparr> species = S, reactives = rs, reactives_indices = ris,
           products = ps, products_indices = pis, stoechio_coeffs = cs,
           energy_threshold = thr, rate_constant = rc, spectators = specs \<rparr>"
    unfolding Reaction_init_def ebind_Inr_iff by auto
  from a1 have ris_ok: "ris \<noteq> []" "\<forall>i\<in>set ris. i < nb S"
    by (simp_all add: assert_indices_Inr_iff)
  from a2 have pis_ok: "pis \<noteq> []" "\<forall>i\<in>set pis. i < nb S"
    by (simp_all add: assert_indices_Inr_iff)
  from cs ris_ok have cs_eq:
    "cs = (if truthy coeffs then the coeffs
           else map (\<lambda>k. if k \<in> set ris then 1 else 0) [0..<nb S])"
    by (simp add: default_stoechio_coeffs_eq split: if_splits)
  show "species r = S" and "rate_constant r = rc" and "energy_threshold r = thr"
    and "spectators r = specs"
    by (simp_all add: r)
  show "comprehension (get_specie_by_name S) rn = Inr (reactives r)"
    and "comprehension (get_specie_by_name S) pn = Inr (products r)"
    by (simp_all add: r rs ps)
  show "list_all2 (\<lambda>sp i. get_index_by_instance S sp = Inr i) (reactives r) (reactives_indices r)"
    and "list_all2 (\<lambda>sp i. get_index_by_instance S sp = Inr i) (products r) (products_indices r)"
    using ris pis by (simp_all add: r comprehension_Inr_iff)
  show "reactives_indices r \<noteq> []" and "\<forall>i\<in>set (reactives_indices r). i < nb S"
    and "products_indices r \<noteq> []" and "\<forall>i\<in>set (products_indices r). i < nb S"
    using ris_ok pis_ok by (simp_all add: r)
  show "stoechio_coeffs r =
           (if truthy coeffs then the coeffs
            else map (\<lambda>k. if k \<in> set (reactives_indices r) then 1 else 0) [0..<nb S])"
    using cs_eq by (simp add: r)
qed

lemma Reaction_init_default_coeffs:
  assumes "Reaction_init S rn pn rc thr coeffs specs = Inr r" and "\<not> truthy coeffs"
  shows "length (stoechio_coeffs r) = nb S"
    and "k < nb S \<Longrightarrow> stoechio_coeffs r ! k = (if k \<in> set (reactives_indices r) then 1 else 0)"
  using Reaction_init_Inr(13) [OF assms(1)] assms(2) by simp_all

lemma density_change_rate_eq:
  assumes init: "Reaction_init S rn pn rc thr coeffs specs = Inr r"
    and st: "nb S \<le> length state"
    and len: "nb S \<le> length (stoechio_coeffs r)"
  shows "density_change_rate r state =
           Inr (map (\<lambda>k.
                  if k \<in> set (products_indices r) then
                    (rc (drop (nb S) state) * np_prod (map ((!) state) (reactives_indices r)))
                      * stoechio_coeffs r ! k
                  else if k \<in> set (reactives_indices r) then
                    (- (rc (drop (nb S) state) * np_prod (map ((!) state) (reactives_indices r))))
                      * stoechio_coeffs r ! k
                  else 0) [0..<nb S])"
proof -
  note I = Reaction_init_Inr [OF init]
  let ?ris = "reactives_indices r" and ?pis = "products_indices r"
  let ?P = "rc (drop (nb S) state) * np_prod (map ((!) state) ?ris)"
  let ?rate1 = "map (\<lambda>k. if k \<in> set ?ris then (- ?P) * stoechio_coeffs r ! k
                          else np_zeros (nb S) ! k) [0..<length (np_zeros (nb S) :: 'a list)]"
  have fi: "fancy_index state ?ris = Inr (map ((!) state) ?ris)"
    using I(8) st by (intro fancy_index_in_range) auto
  have l0: "length (np_zeros (nb S) :: 'a list) = nb S"
    by (simp add: np_zeros_def)
  have r1: "assign_rates S (stoechio_coeffs r) (- ?P) (reactives r) (np_zeros (nb S)) = Inr ?rate1"
    using I(6) I(8) len by (intro assign_rates_in_range) (auto simp: l0)
  have l1: "length ?rate1 = nb S"
    by (simp add: l0)
  have r2: "assign_rates S (stoechio_coeffs r) ?P (products r) ?rate1 =
              Inr (map (\<lambda>k. if k \<in> set ?pis then ?P * stoechio_coeffs r ! k else ?rate1 ! k)
                     [0..<length ?rate1])"
    using I(10) I(12) len by (intro assign_rates_in_range) (auto simp: l0)
  have e: "map (\<lambda>k. if k \<in> set ?pis then ?P * stoechio_coeffs r ! k else ?rate1 ! k)
             [0..<nb S] =
           map (\<lambda>k. if k \<in> set ?pis then ?P * stoechio_coeffs r ! k
                    else if k \<in> set ?ris then (- ?P) * stoechio_coeffs r ! k
                    else 0) [0..<nb S]"
    by (rule map_cong) (auto simp: l0 np_zeros_def)
  show ?thesis
    unfolding density_change_rate_def Let_def I(1) I(2) fi ebind.simps r1 r2 l1 e ..
qed

lemma electron_loss_power_eq:
  assumes "\<forall>i\<in>set (reactives_indices r). i < length state"
  shows "electron_loss_power r state =
           Inr (energy_threshold r * rate_constant r state
                  * np_prod (map ((!) state) (reactives_indices r)))"
  using assms by (simp add: electron_loss_power_def fancy_index_in_range)

subsection \<open>The float64 scenario\<close>

text \<open>
  \<open>float_reaction\<close> is the reaction the constructor builds, and the values of the
  scenario are the numbers they stand for.
\<close>

lemma float_reaction_constructed:
  "Reaction_init float_species [''A''] [''A''] K_tenth f_ten None None = Inr float_reaction"
  by (simp add: float_reaction_def float_species_def Reaction_init_def Species_of_def
      assert_indices_def default_stoechio_coeffs_def np_zeros_def setitem_def truthy_def)

lemma float64_value_examples:
  "float64_value f_tenth = 3602879701896397 / 36028797018963968"
  "float64_value f_three = 3" "float64_value f_ten = 10"
  "float64_value (Float64 6755399441055745 (- 51)) = 6755399441055745 / 2251799813685248"
  by (simp_all add: float64_value_def f_tenth_def f_three_def f_ten_def power_int_minus)

lemma float64_products:
  "f_three * f_tenth = Float64 1351079888211149 (- 52)"
  "f_ten * Float64 1351079888211149 (- 52) = Float64 6755399441055745 (- 51)"
  "Float64 6755399441055745 (- 51) * 1 = Float64 6755399441055745 (- 51)"
  "f_ten * f_tenth = 1"
  "(1 :: float64) * 1 = 1"
  "f_three * 1 = f_three"
  by code_simp+

lemmas demo_defs =
  demo_reaction_def demo_catalytic_def demo_species_def demo_state_def K_diss_I2_def
  two_species_def miscounting_species_def
  Reaction_init_def ElasticCollisionWithElectron_init_def Species_of_def assert_indices_def
  default_stoechio_coeffs_def np_zeros_def setitem_def getitem_def truthy_def fancy_index_def

section \<open>The claims\<close>

subsection \<open>C1: the demo scenario\<close>

text \<open>
  C1. In the scenario of the demo block (six species \<^verbatim>\<open>I0..I5\<close>, reactives
  \<^verbatim>\<open>I2, I4\<close>, product \<^verbatim>\<open>I5\<close>, rate constant 2, threshold 10, default
  coefficients, state \<^verbatim>\<open>[1,2,3,4,5,6,-181,-182]\<close>) the claim expects the rate vector
  \<^verbatim>\<open>[0,0,-30,0,-30,+30]\<close>. The code computes the mass-action term 30 and the two
  reactive entries as expected, but the entry of the product \<^verbatim>\<open>I5\<close> is
  \<open>30 * stoechio_coeffs[5] = 30 * 0 = 0\<close>: the default fill never sets the coefficient
  of a product (see C2).
\<close>

theorem demo_density_change_rate:
  "ebind demo_reaction (\<lambda>r. density_change_rate r demo_state) = Inr [0, 0, - 30, 0, - 30, 0]"
  by (simp add: demo_defs density_change_rate_def)

subsection \<open>C2: default stoichiometric coefficients\<close>

text \<open>
  C2. The claim: without explicit coefficients, \<^verbatim>\<open>stoechio_coeffs\<close> has length N
  and is 1 at every reactive and every product index, 0 elsewhere. In the demo scenario the
  code builds \<^verbatim>\<open>[0,0,1,0,1,0]\<close>: length 6, 1 at the reactive indices 2 and 4, but
  0 at the product index 5. The second loop of the default fill assigns at the variable
  of the first loop.
\<close>

theorem demo_stoechio_coeffs:
  "map_sum id (\<lambda>r. (reactives_indices r, products_indices r, stoechio_coeffs r)) demo_reaction
     = Inr ([2, 4], [5], [0, 0, 1, 0, 1, 0])"
  by (simp add: demo_defs)

subsection \<open>C3: a species on both sides\<close>

text \<open>
  C3. For a constructed reaction, a state with at least N entries and a coefficient for
  every species: when an index \<open>i\<close> is both a reactive index and a product index,
  \<^verbatim>\<open>density_change_rate\<close> returns, and the entry at \<open>i\<close> is
  \<open>+product * stoechio_coeffs[i]\<close> with \<open>product = K * prod(state[reactives_indices])\<close>:
  the assignment of the products loop stands, nothing is summed.
\<close>

theorem density_change_rate_overlap:
  assumes init: "Reaction_init S rn pn rc thr coeffs specs = Inr r"
    and st: "nb (species r) \<le> length state"
    and len: "nb (species r) \<le> length (stoechio_coeffs r)"
    and i: "i \<in> set (reactives_indices r)" "i \<in> set (products_indices r)"
  shows "\<exists>rate. density_change_rate r state = Inr rate \<and>
           rate ! i =
             rate_constant r (drop (nb (species r)) state)
               * np_prod (map ((!) state) (reactives_indices r))
               * stoechio_coeffs r ! i"
proof -
  note I = Reaction_init_Inr [OF init]
  have "i < nb S" using I(12) i(2) by simp
  then show ?thesis
    using density_change_rate_eq [OF init, of state] st len i(2)
    by (simp add: I(1) I(2))
qed

theorem density_change_rate_overlap_witness:
  "\<exists>r rate. demo_catalytic = Inr r \<and> nb (species r) \<le> length demo_state \<and>
     nb (species r) \<le> length (stoechio_coeffs r) \<and>
     4 \<in> set (reactives_indices r) \<and> 4 \<in> set (products_indices r) \<and>
     density_change_rate r demo_state = Inr rate \<and> rate ! 4 = 30"
proof -
  obtain r where r: "demo_catalytic = Inr r" and
    f: "reactives_indices r = [2, 4]" "products_indices r = [4, 5]"
       "stoechio_coeffs r = [0, 0, 1, 0, 1, 0]" "nb (species r) = 6"
       "rate_constant r = K_diss_I2"
    by (simp add: demo_defs)
  from density_change_rate_overlap [OF r [unfolded demo_catalytic_def], of demo_state 4]
  obtain rate where "density_change_rate r demo_state = Inr rate" and "rate ! 4 = 30"
    by (auto simp: f demo_state_def K_diss_I2_def)
  with r show ?thesis
    by (intro exI [of _ r] exI [of _ rate]) (simp add: f demo_state_def)
qed

subsection \<open>C4: what the rate constant is called on\<close>

text \<open>
  C4. \<^verbatim>\<open>density_change_rate\<close> uses the rate-constant function at the temperature
  sub-vector \<^verbatim>\<open>state[N:]\<close> and nowhere else: replacing the function by the constant
  function of its value there changes nothing. \<^verbatim>\<open>electron_loss_power\<close> uses it at
  the full state and nowhere else. Both hold for every reaction record, every function
  and every state. The two conventions are distinct: in the demo scenario, with the
  rate constant that returns the length of its argument, neither method gives what it
  would give under the convention of the other.
\<close>

theorem rate_constant_call_conventions:
  "density_change_rate (r\<lparr>rate_constant := f\<rparr>) state =
     density_change_rate (r\<lparr>rate_constant := (\<lambda>_. f (drop (nb (species r)) state))\<rparr>) state
   \<and> electron_loss_power (r\<lparr>rate_constant := f\<rparr>) state =
     electron_loss_power (r\<lparr>rate_constant := (\<lambda>_. f state)\<rparr>) state
   \<and> (\<exists>r' g. demo_reaction = Inr r' \<and>
         density_change_rate (r'\<lparr>rate_constant := g\<rparr>) demo_state \<noteq>
           density_change_rate (r'\<lparr>rate_constant := (\<lambda>_. g demo_state)\<rparr>) demo_state \<and>
         electron_loss_power (r'\<lparr>rate_constant := g\<rparr>) demo_state \<noteq>
           electron_loss_power
             (r'\<lparr>rate_constant := (\<lambda>_. g (drop (nb (species r')) demo_state))\<rparr>) demo_state)"
proof (intro conjI)
  obtain r' where r': "demo_reaction = Inr r'"
    by (simp add: demo_defs)
  from r' have f: "species r' = demo_species" "reactives_indices r' = [2, 4]"
    "products_indices r' = [5]" "stoechio_coeffs r' = [0, 0, 1, 0, 1, 0]"
    "reactives r' = map (\<lambda>n. \<lparr> name = n, mass = 1057 / 10 ^ 29, nb_atoms = 0 \<rparr>) [''I2'', ''I4'']"
    "products r' = map (\<lambda>n. \<lparr> name = n, mass = 1057 / 10 ^ 29, nb_atoms = 0 \<rparr>) [''I5'']"
    "energy_threshold r' = 10"
    by (auto simp: demo_defs)
  let ?g = "\<lambda>xs :: real list. real (length xs)"
  have "density_change_rate (r'\<lparr>rate_constant := ?g\<rparr>) demo_state \<noteq>
           density_change_rate (r'\<lparr>rate_constant := (\<lambda>_. ?g demo_state)\<rparr>) demo_state"
    by (simp add: density_change_rate_def f demo_defs)
  moreover have "electron_loss_power (r'\<lparr>rate_constant := ?g\<rparr>) demo_state \<noteq>
           electron_loss_power
             (r'\<lparr>rate_constant := (\<lambda>_. ?g (drop (nb (species r')) demo_state))\<rparr>) demo_state"
    by (simp add: electron_loss_power_def f demo_defs)
  ultimately show "\<exists>r' g. demo_reaction = Inr r' \<and>
         density_change_rate (r'\<lparr>rate_constant := g\<rparr>) demo_state \<noteq>
           density_change_rate (r'\<lparr>rate_constant := (\<lambda>_. g demo_state)\<rparr>) demo_state \<and>
         electron_loss_power (r'\<lparr>rate_constant := g\<rparr>) demo_state \<noteq>
           electron_loss_power
             (r'\<lparr>rate_constant := (\<lambda>_. g (drop (nb (species r')) demo_state))\<rparr>) demo_state"
    using r' by blast
qed (simp_all add: density_change_rate_def electron_loss_power_def)

subsection \<open>C5: length and zeros of the rate vector\<close>

text \<open>
  C5. For a constructed reaction, a state with at least N entries and a coefficient for
  every species, \<^verbatim>\<open>density_change_rate\<close> returns a vector of length N whose entry
  is 0 at every index that is neither a reactive index nor a product index.
\<close>

theorem density_change_rate_length_and_zeros:
  assumes init: "Reaction_init S rn pn rc thr coeffs specs = Inr r"
    and st: "nb (species r) \<le> length state"
    and len: "nb (species r) \<le> length (stoechio_coeffs r)"
  shows "\<exists>rate. density_change_rate r state = Inr rate \<and>
           length rate = nb (species r) \<and>
           (\<forall>k<nb (species r).
              k \<notin> set (reactives_indices r) \<union> set (products_indices r) \<longrightarrow> rate ! k = 0)"
  using density_change_rate_eq [OF init, of state] st len
  by (simp add: Reaction_init_Inr(1) [OF init])

theorem density_change_rate_length_and_zeros_witness:
  "\<exists>r rate. demo_reaction = Inr r \<and> nb (species r) \<le> length demo_state \<and>
     nb (species r) \<le> length (stoechio_coeffs r) \<and>
     density_change_rate r demo_state = Inr rate \<and> length rate = 6 \<and>
     3 \<notin> set (reactives_indices r) \<union> set (products_indices r) \<and> rate ! 3 = 0"
proof -
  obtain r where r: "demo_reaction = Inr r" and
    f: "reactives_indices r = [2, 4]" "products_indices r = [5]"
       "stoechio_coeffs r = [0, 0, 1, 0, 1, 0]" "nb (species r) = 6"
    by (simp add: demo_defs)
  from density_change_rate_length_and_zeros [OF r [unfolded demo_reaction_def], of demo_state]
  obtain rate where "density_change_rate r demo_state = Inr rate" and "length rate = 6"
    and "rate ! 3 = 0"
    by (auto simp: f demo_state_def)
  with r show ?thesis
    by (intro exI [of _ r] exI [of _ rate]) (simp add: f demo_state_def)
qed

subsection \<open>C6: elastic collisions leave the densities alone\<close>

text \<open>
  C6. For every constructed \<^verbatim>\<open>ElasticCollisionWithElectron\<close> and every state, the
  overriding \<^verbatim>\<open>density_change_rate\<close> returns the zero vector of length N.
\<close>

theorem elastic_density_change_rate_zero:
  assumes "ElasticCollisionWithElectron_init S colliding_specie rc thr = Inr r"
  shows "elastic_density_change_rate r state = replicate (nb S) 0"
  using Reaction_init_Inr(1) [OF assms [unfolded ElasticCollisionWithElectron_init_def]]
  by (simp add: elastic_density_change_rate_def np_zeros_def)

theorem elastic_density_change_rate_zero_witness:
  "\<exists>r. ElasticCollisionWithElectron_init two_species ''N2'' K_diss_I2 0 = Inr r \<and>
     elastic_density_change_rate r [2, 3, 7, 5] = [0, 0]"
proof -
  obtain r where r: "ElasticCollisionWithElectron_init two_species ''N2'' K_diss_I2 0 = Inr r"
    by (simp add: demo_defs)
  from elastic_density_change_rate_zero [OF r, of "[2, 3, 7, 5]"] r show ?thesis
    by (simp add: two_species_def Species_of_def)
qed

subsection \<open>C7: the power exchanged in an elastic collision\<close>

text \<open>
  C7. For a constructed \<^verbatim>\<open>ElasticCollisionWithElectron\<close> whose colliding species
  \<open>s\<close> has registry index \<open>i\<close> and a non-zero mass, and a state that reaches the
  temperature slot \<open>N + nb_atoms s\<close>, \<^verbatim>\<open>electron_loss_power\<close> returns
  \<open>3 * (m_e / mass s) * k_B * (state[N] - state[N + nb_atoms s]) * state[0] * state[i] *
  rate_constant(state)\<close>, the operations in this order. No law of arithmetic is used.
\<close>

theorem elastic_electron_loss_power_eq:
  assumes init: "ElasticCollisionWithElectron_init S colliding_specie rc thr = Inr r"
    and s: "get_specie_by_name S colliding_specie = Inr s"
    and i: "get_index_by_instance S s = Inr i"
    and m: "mass s \<noteq> 0"
    and st: "nb S + nb_atoms s < length state"
  shows "elastic_electron_loss_power m_e k_B r state =
           Inr (3 * (m_e / mass s) * k_B * (state ! nb S - state ! (nb S + nb_atoms s))
                  * state ! 0 * state ! i * rc state)"
proof -
  note I = Reaction_init_Inr [OF init [unfolded ElasticCollisionWithElectron_init_def]]
  from I(5) s have rs: "reactives r = [s]"
    by (auto simp: ebind_Inr_iff)
  with I(6) i have ris: "reactives_indices r = [i]"
    by (auto simp: list_all2_Cons1)
  with I(8) have "i < nb S" by simp
  with st have "i < length state" and "state \<noteq> []" and "nb S < length state"
    by auto
  with st m show ?thesis
    by (simp add: elastic_electron_loss_power_def getitem_def rs ris I(1) I(2))
qed

theorem elastic_electron_loss_power_eq_witness:
  "\<exists>r. ElasticCollisionWithElectron_init two_species ''N2'' K_diss_I2 0 = Inr r \<and>
     elastic_electron_loss_power 1 1 r [2, 3, 7, 5] = Inr 36"
proof -
  let ?s = "\<lparr> name = ''N2'', mass = 2 :: real, nb_atoms = 1 \<rparr>"
  obtain r where r: "ElasticCollisionWithElectron_init two_species ''N2'' K_diss_I2 0 = Inr r"
    by (simp add: demo_defs)
  have s: "get_specie_by_name two_species ''N2'' = Inr ?s"
    and i: "get_index_by_instance two_species ?s = Inr 1"
    by (simp_all add: two_species_def Species_of_def)
  from elastic_electron_loss_power_eq [OF r s i, of "[2, 3, 7, 5]" 1 1] r show ?thesis
    by (simp add: two_species_def Species_of_def K_diss_I2_def)
qed

subsection \<open>C8: linearity in the rate constant\<close>

text \<open>
  C8, in exact arithmetic. For numbers whose multiplication is
  commutative and associative with unit 1 (integers, rationals, reals), scaling the value
  of the rate-constant function by a factor \<open>c\<close> scales the power returned by
  \<^verbatim>\<open>electron_loss_power\<close> by exactly \<open>c\<close>, and an IndexError stays the same
  IndexError.
\<close>

theorem electron_loss_power_linear:
  fixes r :: "'a::comm_monoid_mult Reaction"
  shows "electron_loss_power (scale_rate_constant c r) state =
     map_sum id ((*) c) (electron_loss_power r state)"
  by (cases "fancy_index state (reactives_indices r)")
     (simp_all add: electron_loss_power_def scale_rate_constant_def mult_ac)

text \<open>
  C8 on float64 numbers: the claim as stated fails. The code computes
  \<open>energy_threshold * (c * K) * prod\<close>, and the rounding of each product makes this
  differ from \<open>c * (energy_threshold * K * prod)\<close>: with threshold \<^verbatim>\<open>10.0\<close>,
  \<open>K = 0.1\<close>, density \<^verbatim>\<open>1.0\<close> and \<open>c = 3.0\<close> the scaled reaction returns
  \<^verbatim>\<open>3.0000000000000004\<close> and \<open>c\<close> times the power of the given one is
  \<^verbatim>\<open>3.0\<close>.
\<close>

theorem electron_loss_power_linear_float64_counterexample:
  "electron_loss_power (scale_rate_constant f_three float_reaction) float_state
     = Inr (Float64 6755399441055745 (- 51))
   \<and> map_sum id ((*) f_three) (electron_loss_power float_reaction float_state)
     = Inr (Float64 3 0)
   \<and> electron_loss_power (scale_rate_constant f_three float_reaction) float_state
     \<noteq> map_sum id ((*) f_three) (electron_loss_power float_reaction float_state)"
  by (simp add: electron_loss_power_def scale_rate_constant_def float_reaction_def
      float_state_def fancy_index_def getitem_def K_tenth_def float64_products)
    (simp add: f_three_def)

subsection \<open>C9: the index guard of the constructor\<close>

text \<open>
  C9. When the reactive names resolve to species and indices and one of these indices is
  not below the species count, or when they are all below it, there is at least one, and
  the product names resolve to a product index that is not below the count, the
  constructor ends in AssertionError: no reaction is built. (With no reactive at all the
  constructor ends in the ValueError of \<^verbatim>\<open>max\<close> before any product is resolved.)
\<close>

theorem Reaction_init_index_guard:
  assumes rs: "comprehension (get_specie_by_name S) rn = Inr rs"
    and ris: "comprehension (get_index_by_instance S) rs = Inr ris"
    and bad: "(\<exists>i\<in>set ris. nb S \<le> i) \<or>
              (ris \<noteq> [] \<and>
               (\<exists>ps pis. comprehension (get_specie_by_name S) pn = Inr ps \<and>
                  comprehension (get_index_by_instance S) ps = Inr pis \<and>
                  (\<exists>j\<in>set pis. nb S \<le> j)))"
  shows "Reaction_init S rn pn rc thr coeffs specs = Inl AssertionError"
proof (cases "\<exists>i\<in>set ris. nb S \<le> i")
  case True
  then have "ris \<noteq> []" by auto
  with True have "assert_indices ris (nb S) = Inl AssertionError"
    by (rule assert_indices_out_of_range [rotated])
  then show ?thesis
    by (simp add: Reaction_init_def rs ris)
next
  case False
  with bad obtain ps pis where ne: "ris \<noteq> []"
    and ps: "comprehension (get_specie_by_name S) pn = Inr ps"
    and pis: "comprehension (get_index_by_instance S) ps = Inr pis"
    and j: "\<exists>j\<in>set pis. nb S \<le> j"
    by auto
  from False ne have a1: "assert_indices ris (nb S) = Inr ()"
    by (simp add: assert_indices_Inr_iff not_le)
  from j have "pis \<noteq> []" by auto
  with j have "assert_indices pis (nb S) = Inl AssertionError"
    by (rule assert_indices_out_of_range [rotated])
  then show ?thesis
    by (simp add: Reaction_init_def rs ris a1 ps pis)
qed

theorem Reaction_init_index_guard_witness:
  "Reaction_init miscounting_species [''B''] [''A''] K_diss_I2 10 None None = Inl AssertionError
   \<and> Reaction_init miscounting_species [''A''] [''B''] K_diss_I2 10 None None = Inl AssertionError"
proof -
  let ?sp = "\<lambda>n. \<lparr> name = n, mass = 1 :: real, nb_atoms = 0 \<rparr>"
  have A: "comprehension (get_specie_by_name miscounting_species) [''A''] = Inr [?sp ''A'']"
    and B: "comprehension (get_specie_by_name miscounting_species) [''B''] = Inr [?sp ''B'']"
    and iA: "comprehension (get_index_by_instance miscounting_species) [?sp ''A''] = Inr [0]"
    and iB: "comprehension (get_index_by_instance miscounting_species) [?sp ''B''] = Inr [5]"
    by (simp_all add: miscounting_species_def)
  have n: "nb miscounting_species = 1"
    by (simp add: miscounting_species_def)
  have "Reaction_init miscounting_species [''B''] [''A''] K_diss_I2 10 None None
          = Inl AssertionError"
    by (rule Reaction_init_index_guard [OF B iB]) (simp add: n)
  moreover have "Reaction_init miscounting_species [''A''] [''B''] K_diss_I2 10 None None
          = Inl AssertionError"
    by (rule Reaction_init_index_guard [OF A iA], rule disjI2, intro conjI exI, simp,
        rule B, rule iB) (simp add: n)
  ultimately show ?thesis ..
qed

subsection \<open>C10: the power does not read the coefficients\<close>

text \<open>
  C10. Two base reactions that differ only in \<^verbatim>\<open>stoechio_coeffs\<close> return the same
  \<^verbatim>\<open>electron_loss_power\<close> on every state.
\<close>

theorem electron_loss_power_ignores_stoechio_coeffs:
  "electron_loss_power (r\<lparr>stoechio_coeffs := cs\<rparr>) state = electron_loss_power r state"
  by (simp add: electron_loss_power_def)

end
